theory Spec2Isabelle
  imports Main
begin

section \<open>The Indian stock market data downloader (downloadfullfinancedata.py)\<close>

text \<open>
  The script talks to four things outside itself: the quote provider (\<open>yf.download\<close>),
  the file system (\<open>DataFrame.to_csv\<close>, \<open>os.makedirs\<close>), the NSE web site
  (\<open>pd.read_csv\<close>) and the clock (\<open>time.sleep\<close>, \<open>datetime.now\<close>). They are
  the fields of an environment record; every answer may depend on how many outside calls
  were made before (the tick), so the same symbol may succeed once and fail later.
  What the script does to the outside is kept in a world record: the tick, the files
  written, and the trace of library calls and log records in the order they happen.
\<close>

subsection \<open>Exceptions, log records and the world\<close>

text \<open>
  Python separates \<open>Exception\<close> and its subclasses, which \<open>except Exception\<close>
  catches, from \<open>KeyboardInterrupt\<close>, which it does not. An \<open>Exception\<close> carries
  the text of \<open>str(e)\<close>.
\<close>

datatype exn = KeyboardInterrupt | Exception string

datatype level = INFO | WARNING | ERROR

text \<open>
  \<open>Log lvl msg exc_info\<close> is one record handed to the logger; \<open>Sleep ms\<close> is a call of
  \<open>time.sleep\<close> with the delay in milliseconds; the other events name the library call
  and its first argument.
\<close>

datatype event =
    Log level string bool
  | Download string
  | ToCsv string
  | Sleep nat
  | ReadCsv string
  | MakeDirs string

text \<open>A pandas DataFrame: its row labels, its column labels and its cells.\<close>

record dataframe =
  df_index :: "string list"
  df_columns :: "string list"
  df_values :: "string list list"

text \<open>\<open>DataFrame.empty\<close>: true when any axis has length 0. \<open>len(df)\<close> counts the rows.\<close>

definition df_empty :: "dataframe \<Rightarrow> bool" where
  "df_empty d \<longleftrightarrow> df_index d = [] \<or> df_columns d = []"

definition df_len :: "dataframe \<Rightarrow> int" where
  "df_len d = int (length (df_index d))"

record world =
  tick :: nat
  files :: "string \<rightharpoonup> dataframe"
  trace :: "event list"

text \<open>Moments in time are microseconds since 0001-01-01 00:00, the least \<open>datetime\<close>.\<close>

type_synonym datetime = int

record env =
  yf_download :: "nat \<Rightarrow> string \<Rightarrow> datetime \<Rightarrow> datetime \<Rightarrow> bool option \<Rightarrow> exn + dataframe"
  to_csv :: "nat \<Rightarrow> dataframe \<Rightarrow> string \<Rightarrow> exn option"
  sleep :: "nat \<Rightarrow> exn option"
  read_csv :: "nat \<Rightarrow> string \<Rightarrow> exn + (string \<times> string list) list"
  makedirs :: "nat \<Rightarrow> string \<Rightarrow> exn option"
  datetime_now :: "nat \<Rightarrow> datetime"
  abspath :: "string \<Rightarrow> string"
  date_str :: "datetime \<Rightarrow> string"

text \<open>A computation either raises or returns a value, and leaves a world behind.\<close>

type_synonym 'a result = "(exn + 'a) \<times> world"

definition bind :: "'a result \<Rightarrow> ('a \<Rightarrow> world \<Rightarrow> 'b result) \<Rightarrow> 'b result" where
  "bind r f = (case r of (Inl e, w) \<Rightarrow> (Inl e, w) | (Inr x, w) \<Rightarrow> f x w)"

text \<open>
  \<open>try: r except Exception as e: h\<close>, the handler receiving \<open>str(e)\<close>. A
  \<open>KeyboardInterrupt\<close> passes through.
\<close>

definition catch :: "'a result \<Rightarrow> (string \<Rightarrow> world \<Rightarrow> 'a result) \<Rightarrow> 'a result" where
  "catch r h = (case r of (Inl (Exception m), w) \<Rightarrow> h m w | (Inl KeyboardInterrupt, w) \<Rightarrow> (Inl KeyboardInterrupt, w) | (Inr x, w) \<Rightarrow> (Inr x, w))"

definition emit :: "event \<Rightarrow> world \<Rightarrow> world" where
  "emit e w = w\<lparr>trace := trace w @ [e]\<rparr>"

definition advance :: "world \<Rightarrow> world" where
  "advance w = w\<lparr>tick := Suc (tick w)\<rparr>"

definition logger_info :: "string \<Rightarrow> world \<Rightarrow> world" where
  "logger_info msg w = emit (Log INFO msg False) w"

definition logger_warning :: "string \<Rightarrow> world \<Rightarrow> world" where
  "logger_warning msg w = emit (Log WARNING msg False) w"

definition logger_error :: "string \<Rightarrow> bool \<Rightarrow> world \<Rightarrow> world" where
  "logger_error msg exc_info w = emit (Log ERROR msg exc_info) w"

subsection \<open>The library calls\<close>

text \<open>
  Each call asks the environment at the current tick, records itself in the trace and
  moves the tick. A write that raises leaves the files as they were.
\<close>

definition call_yf_download ::
  "env \<Rightarrow> string \<Rightarrow> datetime \<Rightarrow> datetime \<Rightarrow> bool option \<Rightarrow> world \<Rightarrow> dataframe result" where
  "call_yf_download env symbol start_dt end_dt auto_adjust w =
     (yf_download env (tick w) symbol start_dt end_dt auto_adjust, advance (emit (Download symbol) w))"

definition call_to_csv :: "env \<Rightarrow> dataframe \<Rightarrow> string \<Rightarrow> world \<Rightarrow> unit result" where
  "call_to_csv env data filename w =
     (case to_csv env (tick w) data filename of
        Some e \<Rightarrow> (Inl e, advance (emit (ToCsv filename) w))
      | None \<Rightarrow> (Inr (), advance (emit (ToCsv filename) (w\<lparr>files := (files w)(filename \<mapsto> data)\<rparr>))))"

definition call_sleep :: "env \<Rightarrow> nat \<Rightarrow> world \<Rightarrow> unit result" where
  "call_sleep env ms w =
     (case sleep env (tick w) of
        Some e \<Rightarrow> (Inl e, advance (emit (Sleep ms) w))
      | None \<Rightarrow> (Inr (), advance (emit (Sleep ms) w)))"

definition call_read_csv :: "env \<Rightarrow> string \<Rightarrow> world \<Rightarrow> ((string \<times> string list) list) result" where
  "call_read_csv env url w = (read_csv env (tick w) url, advance (emit (ReadCsv url) w))"

definition call_makedirs :: "env \<Rightarrow> string \<Rightarrow> world \<Rightarrow> unit result" where
  "call_makedirs env directory w =
     (case makedirs env (tick w) directory of
        Some e \<Rightarrow> (Inl e, advance (emit (MakeDirs directory) w))
      | None \<Rightarrow> (Inr (), advance (emit (MakeDirs directory) w)))"

subsection \<open>Strings and paths\<close>

definition startswith :: "string \<Rightarrow> string \<Rightarrow> bool" where
  "startswith s p \<longleftrightarrow> take (length p) s = p"

text \<open>
  \<open>s.replace(old, new)\<close>: every occurrence of \<open>old\<close>, found from the left without
  overlap, becomes \<open>new\<close>; an empty \<open>old\<close> matches before every character and at the end.
\<close>

fun replace :: "string \<Rightarrow> string \<Rightarrow> string \<Rightarrow> string" where
  "replace [] old new = (if old = [] then new else [])"
| "replace (c # cs) old new =
     (if old = [] then new @ c # replace cs old new
      else if startswith (c # cs) old then new @ replace (drop (length old) (c # cs)) old new
      else c # replace cs old new)"

text \<open>\<open>os.path.join(a, b)\<close> on POSIX, for two components.\<close>

definition path_join :: "string \<Rightarrow> string \<Rightarrow> string" where
  "path_join a b =
     (if startswith b ''/'' then b
      else if a = [] \<or> last a = CHR ''/'' then a @ b
      else a @ ''/'' @ b)"

text \<open>\<open>str(n)\<close> for an integer: decimal digits, a minus sign when negative.\<close>

definition digit_char :: "nat \<Rightarrow> char" where
  "digit_char d = ''0123456789'' ! d"

function str_nat :: "nat \<Rightarrow> string" where
  "str_nat n = (if n < 10 then [digit_char n] else str_nat (n div 10) @ [digit_char (n mod 10)])"
  by pat_completeness auto
termination
  by (relation "measure (\<lambda>n. n)") auto

declare str_nat.simps [simp del]

definition str_int :: "int \<Rightarrow> string" where
  "str_int i = (if i < 0 then CHR ''-'' # str_nat (nat (- i)) else str_nat (nat i))"

subsection \<open>Dates\<close>

definition usec_per_day :: int where
  "usec_per_day = 86400000000"

text \<open>\<open>datetime.max\<close> is 9999-12-31 23:59:59.999999, the last microsecond of day 3652059.\<close>

definition datetime_max :: datetime where
  "datetime_max = 3652059 * usec_per_day - 1"

text \<open>
  \<open>timedelta(days=d)\<close> raises OverflowError beyond 999999999 days either way; the
  message depends on whether \<open>d\<close> fits a C int. The value is in microseconds.
\<close>

definition timedelta_days :: "int \<Rightarrow> exn + int" where
  "timedelta_days d =
     (if d < - 2147483648 \<or> 2147483647 < d then Inl (Exception ''Python int too large to convert to C int'')
      else if \<bar>d\<bar> > 999999999 then Inl (Exception (''days='' @ str_int d @ ''; must have magnitude <= 999999999''))
      else Inr (d * usec_per_day))"

text \<open>\<open>t - delta\<close> raises OverflowError when the result leaves \<open>datetime.min .. datetime.max\<close>.\<close>

definition datetime_sub :: "datetime \<Rightarrow> int \<Rightarrow> exn + datetime" where
  "datetime_sub t delta =
     (let r = t - delta in
      if r < 0 \<or> datetime_max < r then Inl (Exception ''date value out of range'') else Inr r)"

text \<open>
  Lines 238-239 of \<open>run_full_download\<close>: \<open>end_date = now\<close>,
  \<open>start_date = end_date - timedelta(days=years * 365)\<close>. The pair is (start, end).
\<close>

definition date_range :: "datetime \<Rightarrow> int \<Rightarrow> exn + (datetime \<times> datetime)" where
  "date_range now years =
     (let end_dt = now in
      case timedelta_days (years * 365) of
        Inl e \<Rightarrow> Inl e
      | Inr delta \<Rightarrow>
          (case datetime_sub end_dt delta of
             Inl e \<Rightarrow> Inl e
           | Inr start_dt \<Rightarrow> Inr (start_dt, end_dt)))"

subsection \<open>StockDataDownloader\<close>

record downloader =
  base_path :: string
  nifty_path :: string
  sensex_path :: string

fun setup_loop :: "env \<Rightarrow> string list \<Rightarrow> world \<Rightarrow> unit result" where
  "setup_loop env [] w = (Inr (), w)"
| "setup_loop env (directory # rest) w =
     bind (call_makedirs env directory w) (\<lambda>_. setup_loop env rest)"

definition setup_directories :: "env \<Rightarrow> downloader \<Rightarrow> world \<Rightarrow> unit result" where
  "setup_directories env self w =
     (let directories = [base_path self, nifty_path self, sensex_path self] in
      bind (setup_loop env directories w) (\<lambda>_ w1.
        (Inr (), logger_info (''Directory structure initialized at: '' @ base_path self) w1)))"

definition init :: "env \<Rightarrow> string \<Rightarrow> world \<Rightarrow> downloader result" where
  "init env base w =
     (let self = \<lparr>base_path = base,
                  nifty_path = path_join base ''nifty50'',
                  sensex_path = path_join base ''sensex30''\<rparr> in
      bind (setup_directories env self w) (\<lambda>_ w1. (Inr self, w1)))"

definition get_fallback_nifty50 :: "string list" where
  "get_fallback_nifty50 =
     [''ADANIPORTS.NS'', ''ASIANPAINT.NS'', ''AXISBANK.NS'', ''BAJAJ-AUTO.NS'',
      ''BAJFINANCE.NS'', ''BAJAJFINSV.NS'', ''BPCL.NS'', ''BHARTIARTL.NS'',
      ''CIPLA.NS'', ''COALINDIA.NS'', ''DRREDDY.NS'', ''EICHERMOT.NS'',
      ''GRASIM.NS'', ''HCLTECH.NS'', ''HDFCBANK.NS'', ''HDFCLIFE.NS'',
      ''HEROMOTOCO.NS'', ''HINDALCO.NS'', ''HINDUNILVR.NS'', ''ICICIBANK.NS'',
      ''INDUSINDBK.NS'', ''INFY.NS'', ''ITC.NS'', ''JSWSTEEL.NS'',
      ''KOTAKBANK.NS'', ''LT.NS'', ''M&M.NS'', ''MARUTI.NS'', ''NESTLEIND.NS'',
      ''NTPC.NS'', ''ONGC.NS'', ''POWERGRID.NS'', ''RELIANCE.NS'', ''SBIN.NS'',
      ''SUNPHARMA.NS'', ''TATAMOTORS.NS'', ''TATASTEEL.NS'', ''TCS.NS'',
      ''TECHM.NS'', ''TITAN.NS'', ''ULTRACEMCO.NS'', ''WIPRO.NS'',
      ''ADANIENT.NS'', ''APOLLOHOSP.NS'', ''BRITANNIA.NS'', ''DIVISLAB.NS'',
      ''HDFCLIFE.NS'', ''LTIM.NS'', ''SBILIFE.NS'', ''TATACONSUM.NS'']"

definition nse_url :: string where
  "nse_url = ''https://www.nseindia.com/content/indices/ind_nifty50list.csv''"

text \<open>\<open>str(KeyError('Symbol'))\<close> is the key in single quotes.\<close>

definition key_error_Symbol :: exn where
  "key_error_Symbol = Exception ([CHR 0x27] @ ''Symbol'' @ [CHR 0x27])"

text \<open>
  The body of the \<open>try\<close> in \<open>get_nifty50_stocks\<close>. The CSV is a list of columns,
  each a name with its cells; \<open>df['Symbol']\<close> raises KeyError when there is no such
  column.
\<close>

definition get_nifty50_stocks_try :: "env \<Rightarrow> world \<Rightarrow> (string list) result" where
  "get_nifty50_stocks_try env w =
     bind (call_read_csv env nse_url w) (\<lambda>df w1.
       case map_of df ''Symbol'' of
         None \<Rightarrow> (Inl key_error_Symbol, w1)
       | Some column \<Rightarrow>
           (let symbols = map (\<lambda>symbol. symbol @ ''.NS'') column in
            (Inr symbols,
             logger_info (''Successfully fetched '' @ str_int (int (length symbols))
                          @ '' Nifty 50 stocks from NSE'') w1)))"

definition get_nifty50_stocks :: "env \<Rightarrow> world \<Rightarrow> (string list) result" where
  "get_nifty50_stocks env w =
     catch (get_nifty50_stocks_try env w) (\<lambda>e w1.
       (Inr get_fallback_nifty50,
        logger_warning (''Failed to fetch live Nifty 50 list: '' @ e @ ''. Using fallback list.'') w1))"

definition get_sensex30_stocks :: "world \<Rightarrow> (string list) result" where
  "get_sensex30_stocks w =
     (let sensex_constituents =
        [''RELIANCE.BO'', ''TCS.BO'', ''HDFCBANK.BO'', ''INFY.BO'', ''ICICIBANK.BO'',
         ''HINDUNILVR.BO'', ''ITC.BO'', ''SBIN.BO'', ''BHARTIARTL.BO'', ''BAJFINANCE.BO'',
         ''KOTAKBANK.BO'', ''LT.BO'', ''AXISBANK.BO'', ''ASIANPAINT.BO'', ''MARUTI.BO'',
         ''SUNPHARMA.BO'', ''TITAN.BO'', ''ULTRACEMCO.BO'', ''NESTLEIND.BO'',
         ''TATAMOTORS.BO'', ''M&M.BO'', ''HCLTECH.BO'', ''POWERGRID.BO'', ''NTPC.BO'',
         ''WIPRO.BO'', ''TATASTEEL.BO'', ''BAJAJFINSV.BO'', ''TECHM.BO'',
         ''INDUSINDBK.BO'', ''JSWSTEEL.BO'']
      in (Inr sensex_constituents,
          logger_info (''Loaded '' @ str_int (int (length sensex_constituents)) @ '' Sensex 30 stocks'') w))"

text \<open>Line 149: \<open>symbol.replace('.NS', '').replace('.BO', '')\<close>.\<close>

definition clean_symbol :: "string \<Rightarrow> string" where
  "clean_symbol symbol = replace (replace symbol ''.NS'' []) ''.BO'' []"

definition download_single_stock_try ::
  "env \<Rightarrow> string \<Rightarrow> datetime \<Rightarrow> datetime \<Rightarrow> string \<Rightarrow> world \<Rightarrow> bool result" where
  "download_single_stock_try env symbol start_dt end_dt save_path w =
     bind (call_yf_download env symbol start_dt end_dt (Some True)
             (logger_info (''Downloading data for '' @ symbol) w)) (\<lambda>data w1.
       if \<not> df_empty data then
         (let filename = path_join save_path (clean_symbol symbol @ ''.csv'') in
          bind (call_to_csv env data filename w1) (\<lambda>_ w2.
            (Inr True,
             logger_info (''Successfully saved: '' @ filename @ '' ('' @ str_int (df_len data) @ '' rows)'') w2)))
       else (Inr False, logger_warning (''No data available for '' @ symbol) w1))"

definition download_single_stock ::
  "env \<Rightarrow> string \<Rightarrow> datetime \<Rightarrow> datetime \<Rightarrow> string \<Rightarrow> world \<Rightarrow> bool result" where
  "download_single_stock env symbol start_dt end_dt save_path w =
     catch (download_single_stock_try env symbol start_dt end_dt save_path w) (\<lambda>e w1.
       (Inr False, logger_error (''Failed to download '' @ symbol @ '': '' @ e) False w1))"

text \<open>
  The \<open>for\<close> loop of \<open>bulk_download_stocks\<close>: \<open>idx\<close> counts from 1,
  \<open>success_count\<close> is the running count, \<open>time.sleep(0.5)\<close> is outside any \<open>try\<close>.
\<close>

fun bulk_loop ::
  "env \<Rightarrow> string \<Rightarrow> datetime \<Rightarrow> datetime \<Rightarrow> int \<Rightarrow> int \<Rightarrow> string list \<Rightarrow> int \<Rightarrow> world \<Rightarrow> int result" where
  "bulk_loop env save_path start_dt end_dt total_stocks idx [] success_count w = (Inr success_count, w)"
| "bulk_loop env save_path start_dt end_dt total_stocks idx (stock # rest) success_count w =
     bind (download_single_stock env stock start_dt end_dt save_path
             (logger_info (''Processing '' @ str_int idx @ ''/'' @ str_int total_stocks @ '': '' @ stock) w))
       (\<lambda>ok w1.
          bind (call_sleep env 500 w1) (\<lambda>_.
            bulk_loop env save_path start_dt end_dt total_stocks (idx + 1) rest
              (if ok then success_count + 1 else success_count)))"

definition bulk_download_stocks ::
  "env \<Rightarrow> string list \<Rightarrow> string \<Rightarrow> datetime \<Rightarrow> datetime \<Rightarrow> world \<Rightarrow> (int \<times> int) result" where
  "bulk_download_stocks env stock_list save_path start_dt end_dt w =
     (let total_stocks = int (length stock_list) in
      bind (bulk_loop env save_path start_dt end_dt total_stocks 1 stock_list 0
              (logger_info (''Starting bulk download of '' @ str_int total_stocks @ '' stocks'') w))
        (\<lambda>success_count w1.
           (Inr (success_count, total_stocks),
            logger_info (''Bulk download complete: '' @ str_int success_count @ ''/''
                         @ str_int total_stocks @ '' successful'') w1)))"

definition indices_config :: "(string \<times> string) list" where
  "indices_config = [(''^NSEI'', ''NIFTY50''), (''^BSESN'', ''SENSEX''), (''^NSEBANK'', ''BANKNIFTY'')]"

definition download_index_try ::
  "env \<Rightarrow> downloader \<Rightarrow> string \<Rightarrow> string \<Rightarrow> datetime \<Rightarrow> datetime \<Rightarrow> world \<Rightarrow> unit result" where
  "download_index_try env self symbol name start_dt end_dt w =
     bind (call_yf_download env symbol start_dt end_dt None
             (logger_info (''Downloading '' @ name @ '' index data'') w)) (\<lambda>data w1.
       if \<not> df_empty data then
         (let filename = path_join (base_path self) (name @ ''_index.csv'') in
          bind (call_to_csv env data filename w1) (\<lambda>_ w2.
            (Inr (),
             logger_info (''Index saved: '' @ filename @ '' ('' @ str_int (df_len data) @ '' rows)'') w2)))
       else (Inr (), logger_warning (''No data available for '' @ name) w1))"

fun indices_loop ::
  "env \<Rightarrow> downloader \<Rightarrow> datetime \<Rightarrow> datetime \<Rightarrow> (string \<times> string) list \<Rightarrow> world \<Rightarrow> unit result" where
  "indices_loop env self start_dt end_dt [] w = (Inr (), w)"
| "indices_loop env self start_dt end_dt ((symbol, name) # rest) w =
     bind (catch (download_index_try env self symbol name start_dt end_dt w) (\<lambda>e w1.
             (Inr (), logger_error (''Failed to download '' @ name @ '' index: '' @ e) False w1)))
       (\<lambda>_. indices_loop env self start_dt end_dt rest)"

definition download_market_indices ::
  "env \<Rightarrow> downloader \<Rightarrow> datetime \<Rightarrow> datetime \<Rightarrow> world \<Rightarrow> unit result" where
  "download_market_indices env self start_dt end_dt w =
     indices_loop env self start_dt end_dt indices_config
       (logger_info ''Starting download of market indices'' w)"

text \<open>The dictionary \<open>stats\<close>, one field for each of its seven keys.\<close>

record stats =
  start_date :: datetime
  end_date :: datetime
  indices_downloaded :: int
  nifty_success :: int
  nifty_total :: int
  sensex_success :: int
  sensex_total :: int

text \<open>\<open>"=" * 70\<close> and \<open>"\n" + "=" * 70\<close>.\<close>

definition rule70 :: string where
  "rule70 = replicate 70 CHR ''=''"

definition nl_rule70 :: string where
  "nl_rule70 = CHR 0x0A # rule70"

text \<open>Several \<open>logger.info\<close> calls in a row, in the order they are written.\<close>

definition logger_infos :: "string list \<Rightarrow> world \<Rightarrow> world" where
  "logger_infos msgs w = fold logger_info msgs w"

definition print_summary :: "env \<Rightarrow> downloader \<Rightarrow> stats \<Rightarrow> world \<Rightarrow> unit result" where
  "print_summary env self st w =
     (Inr (),
      logger_infos
        [nl_rule70,
         ''DOWNLOAD SUMMARY REPORT'',
         rule70,
         ''Date Range: '' @ date_str env (start_date st) @ '' to '' @ date_str env (end_date st),
         ''Indices Downloaded: '' @ str_int (indices_downloaded st),
         ''Nifty 50: '' @ str_int (nifty_success st) @ ''/'' @ str_int (nifty_total st) @ '' stocks'',
         ''Sensex 30: '' @ str_int (sensex_success st) @ ''/'' @ str_int (sensex_total st) @ '' stocks'',
         CHR 0x0A # ''Data Location:'',
         ''  - Indices: '' @ base_path self @ ''/'',
         ''  - Nifty 50: '' @ nifty_path self @ ''/'',
         ''  - Sensex 30: '' @ sensex_path self @ ''/'',
         rule70] w)"

text \<open>The three log records that open a phase.\<close>

definition phase_banner :: "string \<Rightarrow> world \<Rightarrow> world" where
  "phase_banner title w = logger_infos [nl_rule70, title, rule70] w"

definition run_full_download :: "env \<Rightarrow> downloader \<Rightarrow> int \<Rightarrow> world \<Rightarrow> stats result" where
  "run_full_download env self years w =
     (case date_range (datetime_now env (tick w)) years of
        Inl e \<Rightarrow> (Inl e, w)
      | Inr (start_dt, end_dt) \<Rightarrow>
          (let w1 = logger_infos
                      [rule70,
                       ''INDIAN STOCK MARKET DATA DOWNLOADER - FULL EXECUTION'',
                       rule70,
                       ''Date range: '' @ date_str env start_dt @ '' to '' @ date_str env end_dt,
                       ''Data path: '' @ abspath env (base_path self)] w;
               stats0 = \<lparr>start_date = start_dt, end_date = end_dt, indices_downloaded = 0,
                         nifty_success = 0, nifty_total = 0, sensex_success = 0, sensex_total = 0\<rparr>
           in
           bind (download_market_indices env self start_dt end_dt
                   (phase_banner ''PHASE 1: Downloading Market Indices'' w1)) (\<lambda>_ w2.
           let stats1 = stats0\<lparr>indices_downloaded := 3\<rparr> in
           bind (get_nifty50_stocks env (phase_banner ''PHASE 2: Downloading Nifty 50 Stocks'' w2)) (\<lambda>nifty_stocks w3.
           bind (bulk_download_stocks env nifty_stocks (nifty_path self) start_dt end_dt w3) (\<lambda>(nifty_success', nifty_total') w4.
           let stats2 = stats1\<lparr>nifty_success := nifty_success', nifty_total := nifty_total'\<rparr> in
           bind (get_sensex30_stocks (phase_banner ''PHASE 3: Downloading Sensex 30 Stocks'' w4)) (\<lambda>sensex_stocks w5.
           bind (bulk_download_stocks env sensex_stocks (sensex_path self) start_dt end_dt w5) (\<lambda>(sensex_success', sensex_total') w6.
           let stats3 = stats2\<lparr>sensex_success := sensex_success', sensex_total := sensex_total'\<rparr> in
           bind (print_summary env self stats3 w6) (\<lambda>_ w7. (Inr stats3, w7)))))))))"

definition main :: "env \<Rightarrow> world \<Rightarrow> stats result" where
  "main env w =
     bind (init env ''data'' w) (\<lambda>downloader w1.
       bind (run_full_download env downloader 10 w1) (\<lambda>stats' w2. (Inr stats', w2)))"

text \<open>
  The \<open>__main__\<close> guard: \<open>main()\<close> under \<open>except KeyboardInterrupt\<close> and
  \<open>except Exception\<close>. Both handlers log and fall off the end of the script.
\<close>

definition script :: "env \<Rightarrow> world \<Rightarrow> unit result" where
  "script env w =
     (case main env w of
        (Inr _, w1) \<Rightarrow> (Inr (), w1)
      | (Inl KeyboardInterrupt, w1) \<Rightarrow> (Inr (), logger_warning (CHR 0x0A # ''Download interrupted by user'') w1)
      | (Inl (Exception e), w1) \<Rightarrow>
          (Inr (), logger_error (''Critical error during execution: '' @ e) True w1))"

text \<open>
  What the interpreter reports when the script is over: status 0 when it ran to its end,
  status 1 after printing the traceback of an exception nobody caught. (An uncaught
  \<open>KeyboardInterrupt\<close> ends the process by the interrupt signal, 128 + 2 to a shell.)
\<close>

definition exit_status :: "exn + unit \<Rightarrow> nat" where
  "exit_status r = (case r of Inr _ \<Rightarrow> 0 | Inl (Exception _) \<Rightarrow> 1 | Inl KeyboardInterrupt \<Rightarrow> 130)"

subsection \<open>Reading a trace\<close>

text \<open>The symbols fetched, the delays slept and the paths written, each in order.\<close>

fun downloads :: "event list \<Rightarrow> string list" where
  "downloads [] = []"
| "downloads (Download s # es) = s # downloads es"
| "downloads (e # es) = downloads es"

fun sleeps :: "event list \<Rightarrow> nat list" where
  "sleeps [] = []"
| "sleeps (Sleep ms # es) = ms # sleeps es"
| "sleeps (e # es) = sleeps es"

fun writes :: "event list \<Rightarrow> string list" where
  "writes [] = []"
| "writes (ToCsv f # es) = f # writes es"
| "writes (e # es) = writes es"

text \<open>The events that matter for throttling: a fetch or a delay.\<close>

fun paced :: "event \<Rightarrow> bool" where
  "paced (Download s) = True"
| "paced (Sleep ms) = True"
| "paced e = False"

text \<open>
  An environment without interrupts: the fetches, the writes and the catalogue read
  raise nothing but \<open>Exception\<close>s, and \<open>time.sleep\<close> returns.
\<close>

definition no_interrupt :: "env \<Rightarrow> bool" where
  "no_interrupt env \<longleftrightarrow>
     (\<forall>t s a b adj. yf_download env t s a b adj \<noteq> Inl KeyboardInterrupt) \<and>
     (\<forall>t d f. to_csv env t d f \<noteq> Some KeyboardInterrupt) \<and>
     (\<forall>t u. read_csv env t u \<noteq> Inl KeyboardInterrupt) \<and>
     (\<forall>t. sleep env t = None)"

subsection \<open>Sample environments\<close>

definition world0 :: world where
  "world0 = \<lparr>tick = 0, files = Map.empty, trace = []\<rparr>"

definition one_row :: dataframe where
  "one_row = \<lparr>df_index = [''2026-11-03''], df_columns = [''Close''], df_values = [[''101.5'']]\<rparr>"

definition no_rows :: dataframe where
  "no_rows = \<lparr>df_index = [], df_columns = [''Close''], df_values = []\<rparr>"

text \<open>
  The provider knows \<open>GOOD.NS\<close>, has no rows for \<open>NODATA.NS\<close> and times out on
  every other symbol, the indices included; the NSE site answers 404; it is noon on
  2026-11-04, day 739923 after 0001-01-01.
\<close>

definition env_demo :: env where
  "env_demo =
     \<lparr>yf_download = (\<lambda>t symbol a b adj.
          if symbol = ''GOOD.NS'' then Inr one_row
          else if symbol = ''NODATA.NS'' then Inr no_rows
          else Inl (Exception ''timed out'')),
      to_csv = (\<lambda>t d f. None),
      sleep = (\<lambda>t. None),
      read_csv = (\<lambda>t u. Inl (Exception ''HTTP Error 404: Not Found'')),
      makedirs = (\<lambda>t d. None),
      datetime_now = (\<lambda>t. 739923 * usec_per_day + 43200000000),
      abspath = (\<lambda>p. ''/srv/'' @ p),
      date_str = (\<lambda>t. str_int (t div usec_per_day))\<rparr>"

text \<open>The same, on a machine where the data directory cannot be created.\<close>

definition env_denied :: env where
  "env_denied = env_demo\<lparr>makedirs := (\<lambda>t d. Some (Exception ''[Errno 13] Permission denied''))\<rparr>"

text \<open>The same, where the NSE site answers with a table that has no Symbol column.\<close>

definition env_schema :: env where
  "env_schema = env_demo\<lparr>read_csv := (\<lambda>t u. Inr [(''Ticker'', [''INFY'', ''TCS''])])\<rparr>"

definition demo_list :: "string list" where
  "demo_list = [''GOOD.NS'', ''BAD.NS'', ''NODATA.NS'', ''GOOD.NS'']"

text \<open>The object \<open>StockDataDownloader(base_path="data")\<close>.\<close>

definition demo_downloader :: downloader where
  "demo_downloader = \<lparr>base_path = ''data'', nifty_path = ''data/nifty50'', sensex_path = ''data/sensex30''\<rparr>"

section \<open>Properties\<close>

subsection \<open>Traces and worlds\<close>

lemma downloads_append: "downloads (xs @ ys) = downloads xs @ downloads ys"
  by (induction xs rule: downloads.induct) auto

lemma sleeps_append: "sleeps (xs @ ys) = sleeps xs @ sleeps ys"
  by (induction xs rule: sleeps.induct) auto

lemma writes_append: "writes (xs @ ys) = writes xs @ writes ys"
  by (induction xs rule: writes.induct) auto

lemmas world_defs = emit_def advance_def logger_info_def logger_warning_def logger_error_def

lemmas call_defs =
  call_yf_download_def call_to_csv_def call_sleep_def call_read_csv_def call_makedirs_def

lemma no_interrupt_demo: "no_interrupt env_demo"
  by (simp add: no_interrupt_def env_demo_def)

subsection \<open>One symbol\<close>

text \<open>The six ways \<open>download_single_stock\<close> can go, by what the provider and the write answer.\<close>

lemma download_single_stock_cases:
  "download_single_stock env symbol sd ed p w =
    (let w0 = advance (emit (Download symbol) (logger_info (''Downloading data for '' @ symbol) w)) in
     case yf_download env (tick w) symbol sd ed (Some True) of
       Inl KeyboardInterrupt \<Rightarrow> (Inl KeyboardInterrupt, w0)
     | Inl (Exception m) \<Rightarrow>
         (Inr False, logger_error (''Failed to download '' @ symbol @ '': '' @ m) False w0)
     | Inr data \<Rightarrow>
        if df_empty data then (Inr False, logger_warning (''No data available for '' @ symbol) w0)
        else (let filename = path_join p (clean_symbol symbol @ ''.csv'') in
          case to_csv env (Suc (tick w)) data filename of
            Some KeyboardInterrupt \<Rightarrow> (Inl KeyboardInterrupt, advance (emit (ToCsv filename) w0))
          | Some (Exception m) \<Rightarrow>
              (Inr False, logger_error (''Failed to download '' @ symbol @ '': '' @ m) False
                            (advance (emit (ToCsv filename) w0)))
          | None \<Rightarrow>
              (Inr True,
               logger_info (''Successfully saved: '' @ filename @ '' ('' @ str_int (df_len data) @ '' rows)'')
                 (advance (emit (ToCsv filename) (w0\<lparr>files := (files w0)(filename \<mapsto> data)\<rparr>))))))"
  by (simp add: download_single_stock_def download_single_stock_try_def bind_def catch_def
      call_defs world_defs Let_def split: sum.splits exn.splits option.splits)

lemma download_single_stock_downloads:
  "downloads (trace (snd (download_single_stock env symbol sd ed p w))) = downloads (trace w) @ [symbol]"
  by (simp add: download_single_stock_cases world_defs Let_def downloads_append
      split: sum.splits exn.splits option.splits)

lemma download_single_stock_sleeps:
  "sleeps (trace (snd (download_single_stock env symbol sd ed p w))) = sleeps (trace w)"
  by (simp add: download_single_stock_cases world_defs Let_def sleeps_append
      split: sum.splits exn.splits option.splits)

lemma download_single_stock_paced:
  "filter paced (trace (snd (download_single_stock env symbol sd ed p w)))
     = filter paced (trace w) @ [Download symbol]"
  by (simp add: download_single_stock_cases world_defs Let_def
      split: sum.splits exn.splits option.splits)

lemma download_single_stock_returns:
  "no_interrupt env \<Longrightarrow> \<exists>ok. fst (download_single_stock env symbol sd ed p w) = Inr ok"
  by (auto simp add: download_single_stock_cases no_interrupt_def Let_def
      split: sum.splits exn.splits option.splits)

subsection \<open>The loop over a list\<close>

lemma bulk_loop_ok:
  "no_interrupt env \<Longrightarrow>
   \<exists>s w'. bulk_loop env p sd ed tot idx stocks c w = (Inr s, w') \<and> c \<le> s \<and> s \<le> c + int (length stocks)
     \<and> downloads (trace w') = downloads (trace w) @ stocks
     \<and> sleeps (trace w') = sleeps (trace w) @ replicate (length stocks) 500
     \<and> filter paced (trace w')
         = filter paced (trace w) @ concat (map (\<lambda>s. [Download s, Sleep 500]) stocks)"
proof (induction stocks arbitrary: idx c w)
  case Nil
  then show ?case by simp
next
  case (Cons stock rest)
  let ?w0 = "logger_info (''Processing '' @ str_int idx @ ''/'' @ str_int tot @ '': '' @ stock) w"
  obtain ok w1 where d: "download_single_stock env stock sd ed p ?w0 = (Inr ok, w1)"
    using download_single_stock_returns[OF Cons.prems, of stock sd ed p ?w0] by (metis prod.collapse)
  have t1: "downloads (trace w1) = downloads (trace w) @ [stock]"
     "sleeps (trace w1) = sleeps (trace w)"
     "filter paced (trace w1) = filter paced (trace w) @ [Download stock]"
    using download_single_stock_downloads[of env stock sd ed p ?w0]
      download_single_stock_sleeps[of env stock sd ed p ?w0]
      download_single_stock_paced[of env stock sd ed p ?w0] d
    by (simp_all add: world_defs downloads_append sleeps_append)
  let ?w2 = "advance (emit (Sleep 500) w1)"
  have sl: "call_sleep env 500 w1 = (Inr (), ?w2)"
    using Cons.prems by (simp add: call_sleep_def no_interrupt_def)
  let ?c = "if ok then c + 1 else c"
  obtain s w' where ih:
     "bulk_loop env p sd ed tot (idx + 1) rest ?c ?w2 = (Inr s, w')" "?c \<le> s" "s \<le> ?c + int (length rest)"
     "downloads (trace w') = downloads (trace ?w2) @ rest"
     "sleeps (trace w') = sleeps (trace ?w2) @ replicate (length rest) 500"
     "filter paced (trace w')
        = filter paced (trace ?w2) @ concat (map (\<lambda>s. [Download s, Sleep 500]) rest)"
    using Cons.IH[OF Cons.prems, of "idx + 1" ?c ?w2] by blast
  have "bulk_loop env p sd ed tot idx (stock # rest) c w = (Inr s, w')"
    using d sl ih(1) by (simp add: bind_def)
  moreover have "c \<le> s" "s \<le> c + int (length (stock # rest))"
    using ih(2,3) by (auto split: if_splits)
  moreover have "downloads (trace w') = downloads (trace w) @ stock # rest"
    using ih(4) t1(1) by (simp add: world_defs downloads_append)
  moreover have "sleeps (trace w') = sleeps (trace w) @ replicate (length (stock # rest)) 500"
    using ih(5) t1(2) by (simp add: world_defs sleeps_append replicate_app_Cons_same)
  moreover have "filter paced (trace w')
      = filter paced (trace w) @ concat (map (\<lambda>s. [Download s, Sleep 500]) (stock # rest))"
    using ih(6) t1(3) by (simp add: world_defs)
  ultimately show ?case by blast
qed

lemma bulk_download_stocks_ok:
  assumes "no_interrupt env"
  shows "\<exists>s w'. bulk_download_stocks env stocks p sd ed w = (Inr (s, int (length stocks)), w')
     \<and> 0 \<le> s \<and> s \<le> int (length stocks)
     \<and> downloads (trace w') = downloads (trace w) @ stocks
     \<and> sleeps (trace w') = sleeps (trace w) @ replicate (length stocks) 500
     \<and> filter paced (trace w')
         = filter paced (trace w) @ concat (map (\<lambda>s. [Download s, Sleep 500]) stocks)"
proof -
  let ?tot = "int (length stocks)"
  let ?w0 = "logger_info (''Starting bulk download of '' @ str_int ?tot @ '' stocks'') w"
  obtain s w1 where l: "bulk_loop env p sd ed ?tot 1 stocks 0 ?w0 = (Inr s, w1)" "0 \<le> s" "s \<le> 0 + ?tot"
     "downloads (trace w1) = downloads (trace ?w0) @ stocks"
     "sleeps (trace w1) = sleeps (trace ?w0) @ replicate (length stocks) 500"
     "filter paced (trace w1)
        = filter paced (trace ?w0) @ concat (map (\<lambda>s. [Download s, Sleep 500]) stocks)"
    using bulk_loop_ok[OF assms, of p sd ed ?tot 1 stocks 0 ?w0] by blast
  let ?w2 = "logger_info (''Bulk download complete: '' @ str_int s @ ''/'' @ str_int ?tot @ '' successful'') w1"
  have "bulk_download_stocks env stocks p sd ed w = (Inr (s, ?tot), ?w2)"
    using l(1) by (simp add: bulk_download_stocks_def bind_def Let_def)
  moreover have "downloads (trace ?w2) = downloads (trace w) @ stocks"
    using l(4) by (simp add: world_defs downloads_append)
  moreover have "sleeps (trace ?w2) = sleeps (trace w) @ replicate (length stocks) 500"
    using l(5) by (simp add: world_defs sleeps_append)
  moreover have "filter paced (trace ?w2)
      = filter paced (trace w) @ concat (map (\<lambda>s. [Download s, Sleep 500]) stocks)"
    using l(6) by (simp add: world_defs)
  ultimately show ?thesis using l(2,3) by auto
qed

text \<open>
  What the hypothesis leaves out: an interrupt during a fetch is not caught by
  \<open>except Exception\<close> and ends the batch, and so does anything \<open>time.sleep\<close>
  raises, since the delay is outside the \<open>try\<close>.
\<close>

lemma bulk_download_stocks_interrupted:
  assumes "yf_download env (tick w) stock sd ed (Some True) = Inl KeyboardInterrupt"
  shows "fst (bulk_download_stocks env (stock # rest) p sd ed w) = Inl KeyboardInterrupt"
  using assms
  by (simp add: bulk_download_stocks_def download_single_stock_cases bind_def Let_def world_defs)

lemma bulk_download_stocks_sleep_raises:
  assumes "no_interrupt (env\<lparr>sleep := (\<lambda>t. None)\<rparr>)" and "\<forall>t. sleep env t = Some e"
  shows "fst (bulk_download_stocks env (stock # rest) p sd ed w) = Inl e"
proof -
  let ?w0 = "logger_info (''Processing '' @ str_int 1 @ ''/'' @ str_int (int (length (stock # rest))) @ '': '' @ stock)
              (logger_info (''Starting bulk download of '' @ str_int (int (length (stock # rest))) @ '' stocks'') w)"
  obtain r w1 where d: "download_single_stock env stock sd ed p ?w0 = (r, w1)"
    by (cases "download_single_stock env stock sd ed p ?w0")
  have "r \<noteq> Inl KeyboardInterrupt"
    using assms(1) d
    by (auto simp: download_single_stock_cases no_interrupt_def Let_def
        split: sum.splits exn.splits option.splits if_splits)
  moreover have "r \<noteq> Inl (Exception m)" for m
    using d
    by (auto simp: download_single_stock_cases Let_def
        split: sum.splits exn.splits option.splits if_splits)
  ultimately obtain ok where "r = Inr ok"
    by (cases r) (metis exn.exhaust, simp)
  then show ?thesis
    using d assms(2) by (simp add: bulk_download_stocks_def bind_def call_sleep_def Let_def)
qed

text \<open>
  Claim C1. Take any list and any position \<open>k\<close> in it whose symbol the provider fails
  on with an error. Without an interrupt, \<open>bulk_download_stocks\<close> returns, with the
  total equal to the length of the list; the symbols it fetched, in order, are the list
  itself, so every position after \<open>k\<close> is fetched and no position is fetched twice;
  and \<open>download_single_stock\<close> answers False for the failed symbol instead of raising.
\<close>

theorem bulk_download_survives_failed_fetch:
  assumes "no_interrupt env" and "k < length stock_list"
    and "\<forall>t. \<exists>m. yf_download env t (stock_list ! k) start_dt end_dt (Some True) = Inl (Exception m)"
  shows "\<exists>success w'.
      bulk_download_stocks env stock_list save_path start_dt end_dt w
        = (Inr (success, int (length stock_list)), w')
    \<and> downloads (trace w') = downloads (trace w) @ stock_list
    \<and> drop (length (downloads (trace w)) + Suc k) (downloads (trace w')) = drop (Suc k) stock_list
    \<and> (\<forall>w0. fst (download_single_stock env (stock_list ! k) start_dt end_dt save_path w0) = Inr False)"
proof -
  obtain s w' where b:
      "bulk_download_stocks env stock_list save_path start_dt end_dt w = (Inr (s, int (length stock_list)), w')"
      "downloads (trace w') = downloads (trace w) @ stock_list"
    using bulk_download_stocks_ok[OF assms(1), of stock_list save_path start_dt end_dt w] by blast
  have "fst (download_single_stock env (stock_list ! k) start_dt end_dt save_path w0) = Inr False" for w0
  proof -
    obtain m where "yf_download env (tick w0) (stock_list ! k) start_dt end_dt (Some True) = Inl (Exception m)"
      using assms(3) by blast
    then show ?thesis by (simp add: download_single_stock_cases Let_def)
  qed
  with b show ?thesis by simp
qed

theorem bulk_download_survives_failed_fetch_witness:
  "no_interrupt env_demo \<and> 1 < length demo_list
   \<and> (\<forall>t. \<exists>m. yf_download env_demo t (demo_list ! 1) 0 1 (Some True) = Inl (Exception m))
   \<and> (\<exists>success w'.
        bulk_download_stocks env_demo demo_list ''data/nifty50'' 0 1 world0 = (Inr (success, 4), w')
      \<and> downloads (trace w') = demo_list
      \<and> drop 2 (downloads (trace w')) = [''NODATA.NS'', ''GOOD.NS'']
      \<and> (\<forall>w0. fst (download_single_stock env_demo ''BAD.NS'' 0 1 ''data/nifty50'' w0) = Inr False))"
proof -
  have h2: "1 < length demo_list" by (simp add: demo_list_def)
  have h3: "\<forall>t. \<exists>m. yf_download env_demo t (demo_list ! 1) 0 1 (Some True) = Inl (Exception m)"
    by (simp add: demo_list_def env_demo_def)
  show ?thesis
    using bulk_download_survives_failed_fetch[OF no_interrupt_demo h2 h3, of "''data/nifty50''" world0] no_interrupt_demo h2 h3
    by (simp add: world0_def demo_list_def numeral_2_eq_2)
qed

text \<open>
  Claim C2. For a list of length N, whatever mix of successes, empty results and errors
  the provider and the writes give, \<open>bulk_download_stocks\<close> returns \<open>(success, N)\<close>
  with \<open>0 \<le> success \<le> N\<close>.
\<close>

theorem bulk_download_tally:
  assumes "no_interrupt env"
  shows "\<exists>success w'.
      bulk_download_stocks env stock_list save_path start_dt end_dt w
        = (Inr (success, int (length stock_list)), w')
    \<and> 0 \<le> success \<and> success \<le> int (length stock_list)"
  using bulk_download_stocks_ok[OF assms, of stock_list save_path start_dt end_dt w] by blast

theorem bulk_download_tally_witness:
  "no_interrupt env_demo \<and>
   (\<exists>success w'. bulk_download_stocks env_demo demo_list ''data/nifty50'' 0 1 world0 = (Inr (success, 4), w')
      \<and> 0 \<le> success \<and> success \<le> 4)"
  using bulk_download_tally[OF no_interrupt_demo, of demo_list "''data/nifty50''" 0 1 world0] no_interrupt_demo
  by (simp add: demo_list_def)

text \<open>
  Claim C5. When the fetch made by \<open>download_single_stock\<close> returns an empty series,
  the function returns False, the files are what they were and no write is attempted;
  the loop then sleeps and goes on to the rest of the list with the success count it had.
\<close>

theorem empty_series_writes_nothing:
  assumes "yf_download env (tick w) symbol start_dt end_dt (Some True) = Inr data" and "df_empty data"
  shows "fst (download_single_stock env symbol start_dt end_dt save_path w) = Inr False
    \<and> files (snd (download_single_stock env symbol start_dt end_dt save_path w)) = files w
    \<and> writes (trace (snd (download_single_stock env symbol start_dt end_dt save_path w))) = writes (trace w)
    \<and> bulk_loop env save_path start_dt end_dt total_stocks idx (symbol # rest) success_count w
        = bind (call_sleep env 500
                 (snd (download_single_stock env symbol start_dt end_dt save_path
                   (logger_info (''Processing '' @ str_int idx @ ''/'' @ str_int total_stocks @ '': '' @ symbol) w))))
            (\<lambda>_. bulk_loop env save_path start_dt end_dt total_stocks (idx + 1) rest success_count)"
  using assms
  by (simp add: download_single_stock_cases Let_def world_defs writes_append bind_def)

theorem empty_series_writes_nothing_witness:
  "yf_download env_demo (tick world0) ''NODATA.NS'' 0 1 (Some True) = Inr no_rows \<and> df_empty no_rows
   \<and> fst (download_single_stock env_demo ''NODATA.NS'' 0 1 ''data/nifty50'' world0) = Inr False
   \<and> files (snd (download_single_stock env_demo ''NODATA.NS'' 0 1 ''data/nifty50'' world0)) = files world0
   \<and> writes (trace (snd (download_single_stock env_demo ''NODATA.NS'' 0 1 ''data/nifty50'' world0)))
       = writes (trace world0)
   \<and> fst (bulk_loop env_demo ''data/nifty50'' 0 1 3 2 [''NODATA.NS'', ''GOOD.NS''] 1 world0) = Inr 2"
proof -
  have h1: "yf_download env_demo (tick world0) ''NODATA.NS'' 0 1 (Some True) = Inr no_rows"
    by (simp add: env_demo_def)
  have h2: "df_empty no_rows" by (simp add: df_empty_def no_rows_def)
  note c = empty_series_writes_nothing[OF h1 h2, of "''data/nifty50''" 3 2 "[''GOOD.NS'']" 1]
  have s: "call_sleep env_demo 500 w = (Inr (), advance (emit (Sleep 500) w))" for w
    by (simp add: call_sleep_def env_demo_def)
  have g: "fst (bulk_loop env_demo ''data/nifty50'' 0 1 3 (2 + 1) [''GOOD.NS''] 1 w) = Inr 2" for w
    by (simp add: download_single_stock_cases env_demo_def one_row_def df_empty_def Let_def
        bind_def call_sleep_def)
  have "fst (bulk_loop env_demo ''data/nifty50'' 0 1 3 2 [''NODATA.NS'', ''GOOD.NS''] 1 world0) = Inr 2"
    by (simp only: c s bind_def prod.case sum.case g)
  with c h1 h2 show ?thesis by blast
qed

subsection \<open>The market indices\<close>

lemma index_step_cases:
  "catch (download_index_try env self symbol name sd ed w) (\<lambda>e w1.
       (Inr (), logger_error (''Failed to download '' @ name @ '' index: '' @ e) False w1)) =
    (let w0 = advance (emit (Download symbol) (logger_info (''Downloading '' @ name @ '' index data'') w)) in
     case yf_download env (tick w) symbol sd ed None of
       Inl KeyboardInterrupt \<Rightarrow> (Inl KeyboardInterrupt, w0)
     | Inl (Exception m) \<Rightarrow>
         (Inr (), logger_error (''Failed to download '' @ name @ '' index: '' @ m) False w0)
     | Inr data \<Rightarrow>
        if df_empty data then (Inr (), logger_warning (''No data available for '' @ name) w0)
        else (let filename = path_join (base_path self) (name @ ''_index.csv'') in
          case to_csv env (Suc (tick w)) data filename of
            Some KeyboardInterrupt \<Rightarrow> (Inl KeyboardInterrupt, advance (emit (ToCsv filename) w0))
          | Some (Exception m) \<Rightarrow>
              (Inr (), logger_error (''Failed to download '' @ name @ '' index: '' @ m) False
                            (advance (emit (ToCsv filename) w0)))
          | None \<Rightarrow>
              (Inr (),
               logger_info (''Index saved: '' @ filename @ '' ('' @ str_int (df_len data) @ '' rows)'')
                 (advance (emit (ToCsv filename) (w0\<lparr>files := (files w0)(filename \<mapsto> data)\<rparr>))))))"
  by (simp add: download_index_try_def bind_def catch_def
      call_defs world_defs Let_def split: sum.splits exn.splits option.splits)

lemma indices_loop_sleeps:
  "sleeps (trace (snd (indices_loop env self sd ed cfg w))) = sleeps (trace w)"
proof (induction cfg arbitrary: w)
  case Nil
  then show ?case by simp
next
  case (Cons a cfg)
  obtain symbol name where a: "a = (symbol, name)" by (cases a)
  show ?case
    unfolding a indices_loop.simps index_step_cases
    by (simp add: bind_def Let_def Cons.IH world_defs sleeps_append
        split: sum.splits exn.splits option.splits)
qed

lemma indices_loop_ok:
  "no_interrupt env \<Longrightarrow>
   \<exists>w'. indices_loop env self sd ed cfg w = (Inr (), w')
     \<and> filter paced (trace w') = filter paced (trace w) @ map (\<lambda>(symbol, name). Download symbol) cfg"
proof (induction cfg arbitrary: w)
  case Nil
  then show ?case by simp
next
  case (Cons a cfg)
  obtain symbol name where a: "a = (symbol, name)" by (cases a)
  let ?step = "catch (download_index_try env self symbol name sd ed w) (\<lambda>e w1.
       (Inr (), logger_error (''Failed to download '' @ name @ '' index: '' @ e) False w1))"
  have "\<exists>w1. ?step = (Inr (), w1) \<and> filter paced (trace w1) = filter paced (trace w) @ [Download symbol]"
    using Cons.prems unfolding index_step_cases
    by (auto simp add: no_interrupt_def Let_def world_defs split: sum.splits exn.splits option.splits)
  then obtain w1 where s: "?step = (Inr (), w1)"
     "filter paced (trace w1) = filter paced (trace w) @ [Download symbol]" by blast
  obtain w' where ih: "indices_loop env self sd ed cfg w1 = (Inr (), w')"
     "filter paced (trace w') = filter paced (trace w1) @ map (\<lambda>(symbol, name). Download symbol) cfg"
    using Cons.IH[OF Cons.prems, of w1] by blast
  have "indices_loop env self sd ed (a # cfg) w = (Inr (), w')"
    unfolding a indices_loop.simps s(1) using ih(1) by (simp add: bind_def)
  then show ?case using ih(2) s(2) a by simp
qed

lemma download_market_indices_ok:
  assumes "no_interrupt env"
  shows "\<exists>w'. download_market_indices env self sd ed w = (Inr (), w')
     \<and> filter paced (trace w') = filter paced (trace w) @ [Download ''^NSEI'', Download ''^BSESN'', Download ''^NSEBANK'']"
  using indices_loop_ok[OF assms, of self sd ed indices_config "logger_info ''Starting download of market indices'' w"]
  by (simp add: download_market_indices_def indices_config_def world_defs)

text \<open>
  Claim C7. In \<open>bulk_download_stocks\<close> every fetch is followed by one delay of 500 ms,
  whatever the fetch gave and also after the last symbol, so a list of N symbols makes N
  delays; \<open>download_market_indices\<close> fetches the three indices one after the other
  and never sleeps.
\<close>

theorem delay_after_every_symbol_none_between_indices:
  assumes "no_interrupt env"
  shows "(\<exists>r w'. bulk_download_stocks env stock_list save_path start_dt end_dt w = (Inr r, w')
          \<and> filter paced (trace w')
              = filter paced (trace w) @ concat (map (\<lambda>s. [Download s, Sleep 500]) stock_list)
          \<and> sleeps (trace w') = sleeps (trace w) @ replicate (length stock_list) 500)
    \<and> (\<exists>w'. download_market_indices env self start_dt end_dt w = (Inr (), w')
          \<and> filter paced (trace w')
              = filter paced (trace w) @ [Download ''^NSEI'', Download ''^BSESN'', Download ''^NSEBANK'']
          \<and> sleeps (trace w') = sleeps (trace w))"
proof -
  have "sleeps (trace (snd (download_market_indices env self start_dt end_dt w))) = sleeps (trace w)"
    by (simp add: download_market_indices_def indices_loop_sleeps world_defs sleeps_append)
  then show ?thesis
    using bulk_download_stocks_ok[OF assms, of stock_list save_path start_dt end_dt w]
      download_market_indices_ok[OF assms, of self start_dt end_dt w]
    by fastforce
qed

theorem delay_after_every_symbol_none_between_indices_witness:
  "no_interrupt env_demo
   \<and> (\<exists>r w'. bulk_download_stocks env_demo [''GOOD.NS'', ''BAD.NS''] ''data/nifty50'' 0 1 world0 = (Inr r, w')
          \<and> filter paced (trace w') = [Download ''GOOD.NS'', Sleep 500, Download ''BAD.NS'', Sleep 500]
          \<and> sleeps (trace w') = [500, 500])
   \<and> (\<exists>w'. download_market_indices env_demo \<lparr>base_path = ''data'', nifty_path = ''data/nifty50'', sensex_path = ''data/sensex30''\<rparr> 0 1 world0 = (Inr (), w')
          \<and> filter paced (trace w') = [Download ''^NSEI'', Download ''^BSESN'', Download ''^NSEBANK'']
          \<and> sleeps (trace w') = [])"
  using delay_after_every_symbol_none_between_indices[OF no_interrupt_demo, of "[''GOOD.NS'', ''BAD.NS'']" "''data/nifty50''" 0 1 world0
      "\<lparr>base_path = ''data'', nifty_path = ''data/nifty50'', sensex_path = ''data/sensex30''\<rparr>"]
    no_interrupt_demo
  by (simp add: world0_def numeral_2_eq_2)

subsection \<open>The catalogue and the file names\<close>

text \<open>
  Claim C10. The fallback list has 50 entries and 49 distinct symbols;
  \<open>HDFCLIFE.NS\<close> is in it twice.
\<close>

theorem fallback_nifty50_has_duplicate:
  "length get_fallback_nifty50 = 50 \<and> card (set get_fallback_nifty50) = 49
   \<and> count_list get_fallback_nifty50 ''HDFCLIFE.NS'' = 2 \<and> \<not> distinct get_fallback_nifty50"
  unfolding get_fallback_nifty50_def by code_simp

text \<open>
  Claim C3 asks that only the trailing exchange suffix be removed. Line 149 removes every
  \<open>.NS\<close> and then every \<open>.BO\<close>, wherever they are: of \<open>X.BO.NS\<close> only \<open>X\<close> is
  left, and of \<open>A.NSB.NS\<close> only \<open>AB\<close>.
\<close>

theorem clean_symbol_removes_inner_suffix: "clean_symbol ''X.BO.NS'' = ''X'' \<and> clean_symbol ''A.NSB.NS'' = ''AB''"
  by (simp add: clean_symbol_def startswith_def)

text \<open>
  For a ticker without a dot, followed by one of the two suffixes, the result is the
  ticker; the two examples of the specification are of this kind.
\<close>

lemma replace_no_dot:
  "CHR ''.'' \<notin> set s \<Longrightarrow> old \<noteq> [] \<Longrightarrow> hd old = CHR ''.'' \<Longrightarrow> replace s old new = s"
  by (induction s) (auto simp: startswith_def take_Cons' neq_Nil_conv split: if_splits)

lemma replace_suffix:
  "CHR ''.'' \<notin> set s \<Longrightarrow> old \<noteq> [] \<Longrightarrow> hd old = CHR ''.'' \<Longrightarrow> replace (s @ old) old [] = s"
  by (induction s) (auto simp: startswith_def take_Cons' neq_Nil_conv split: if_splits)

lemma clean_symbol_plain:
  assumes "CHR ''.'' \<notin> set base"
  shows "clean_symbol (base @ ''.NS'') = base" and "clean_symbol (base @ ''.BO'') = base"
proof -
  show "clean_symbol (base @ ''.NS'') = base"
    using replace_suffix[OF assms, of "''.NS''"] replace_no_dot[OF assms, of "''.BO''" "[]"]
    by (simp add: clean_symbol_def)
  have "replace (base @ ''.BO'') ''.NS'' [] = base @ ''.BO''"
    using assms by (induction base) (auto simp: startswith_def)
  then show "clean_symbol (base @ ''.BO'') = base"
    using replace_suffix[OF assms, of "''.BO''"] by (simp add: clean_symbol_def)
qed

lemma clean_symbol_examples: "clean_symbol ''M&M.NS'' = ''M&M'' \<and> clean_symbol ''M&M.BO'' = ''M&M''"
  by (simp add: clean_symbol_def startswith_def)

subsection \<open>The run controller\<close>

lemma bind_Inr_iff:
  "bind r f = (Inr y, w') \<longleftrightarrow> (\<exists>x w1. r = (Inr x, w1) \<and> f x w1 = (Inr y, w'))"
  by (cases r) (auto simp: bind_def split: sum.splits)

lemma run_full_download_stats:
  assumes "run_full_download env self years w = (Inr st, w')"
  shows "date_range (datetime_now env (tick w)) years = Inr (start_date st, end_date st)
     \<and> indices_downloaded st = 3"
  using assms
  by (auto simp: run_full_download_def bind_Inr_iff Let_def print_summary_def split: sum.splits prod.splits)

lemma get_nifty50_stocks_returns:
  "no_interrupt env \<Longrightarrow> \<exists>l w'. get_nifty50_stocks env w = (Inr l, w')"
  by (auto simp: get_nifty50_stocks_def get_nifty50_stocks_try_def catch_def bind_def call_read_csv_def
      no_interrupt_def key_error_Symbol_def Let_def split: sum.splits exn.splits option.splits)

lemma run_full_download_returns:
  assumes "no_interrupt env" and "date_range (datetime_now env (tick w)) years = Inr dr"
  shows "\<exists>st w'. run_full_download env self years w = (Inr st, w')"
proof -
  obtain sd ed where dr: "dr = (sd, ed)" by (cases dr)
  define w1 where "w1 = logger_infos
                      [rule70,
                       ''INDIAN STOCK MARKET DATA DOWNLOADER - FULL EXECUTION'',
                       rule70,
                       ''Date range: '' @ date_str env sd @ '' to '' @ date_str env ed,
                       ''Data path: '' @ abspath env (base_path self)] w"
  obtain w2 where i: "download_market_indices env self sd ed
                   (phase_banner ''PHASE 1: Downloading Market Indices'' w1) = (Inr (), w2)"
    using download_market_indices_ok[OF assms(1)] by blast
  obtain l w3 where n: "get_nifty50_stocks env (phase_banner ''PHASE 2: Downloading Nifty 50 Stocks'' w2) = (Inr l, w3)"
    using get_nifty50_stocks_returns[OF assms(1)] by blast
  obtain s1 w4 where b1: "bulk_download_stocks env l (nifty_path self) sd ed w3 = (Inr (s1, int (length l)), w4)"
    using bulk_download_stocks_ok[OF assms(1), of l "nifty_path self" sd ed w3] by blast
  obtain l2 w5 where s: "get_sensex30_stocks (phase_banner ''PHASE 3: Downloading Sensex 30 Stocks'' w4) = (Inr l2, w5)"
    by (simp add: get_sensex30_stocks_def Let_def)
  obtain s2 w6 where b2: "bulk_download_stocks env l2 (sensex_path self) sd ed w5 = (Inr (s2, int (length l2)), w6)"
    using bulk_download_stocks_ok[OF assms(1), of l2 "sensex_path self" sd ed w5] by blast
  show ?thesis
    using assms(2) i n b1 s b2 unfolding dr w1_def
    by (simp add: run_full_download_def bind_def Let_def print_summary_def)
qed

lemma date_range_demo:
  "date_range (datetime_now env_demo (tick world0)) 10
   = Inr (736273 * usec_per_day + 43200000000, 739923 * usec_per_day + 43200000000)"
  by (simp add: date_range_def timedelta_days_def datetime_sub_def usec_per_day_def datetime_max_def env_demo_def)

text \<open>
  Claim C6. When lines 238-239 produce a range, its end is now and its start is the end
  less \<open>years * 365\<close> days; for \<open>years = 10\<close> and any moment from day 3650 of
  the calendar on, the range exists, spans exactly 3650 days (so it is within a day of
  3650) and starts strictly before it ends; and the dates in the stats returned by
  \<open>run_full_download\<close> are this range.
\<close>

theorem date_range_is_years_times_365:
  "(date_range now years = Inr (start_dt, end_dt)
      \<longrightarrow> end_dt = now \<and> start_dt = end_dt - years * 365 * usec_per_day)
   \<and> (3650 * usec_per_day \<le> now \<and> now \<le> datetime_max
      \<longrightarrow> (\<exists>start_dt. date_range now 10 = Inr (start_dt, now)
            \<and> now - start_dt = 3650 * usec_per_day
            \<and> \<bar>(now - start_dt) - 3650 * usec_per_day\<bar> \<le> usec_per_day \<and> start_dt < now))
   \<and> (run_full_download env self years w = (Inr st, w')
      \<longrightarrow> date_range (datetime_now env (tick w)) years = Inr (start_date st, end_date st))"
proof (intro conjI impI)
  assume "date_range now years = Inr (start_dt, end_dt)"
  then show "end_dt = now" "start_dt = end_dt - years * 365 * usec_per_day"
    by (auto simp: date_range_def timedelta_days_def datetime_sub_def Let_def split: if_splits)
next
  assume "3650 * usec_per_day \<le> now \<and> now \<le> datetime_max"
  then show "\<exists>start_dt. date_range now 10 = Inr (start_dt, now)
            \<and> now - start_dt = 3650 * usec_per_day
            \<and> \<bar>(now - start_dt) - 3650 * usec_per_day\<bar> \<le> usec_per_day \<and> start_dt < now"
    by (simp add: date_range_def timedelta_days_def datetime_sub_def usec_per_day_def datetime_max_def)
next
  assume "run_full_download env self years w = (Inr st, w')"
  then show "date_range (datetime_now env (tick w)) years = Inr (start_date st, end_date st)"
    using run_full_download_stats by blast
qed

theorem date_range_is_years_times_365_witness:
  "date_range (739923 * usec_per_day + 43200000000) 10
     = Inr (736273 * usec_per_day + 43200000000, 739923 * usec_per_day + 43200000000)
   \<and> 739923 * usec_per_day + 43200000000 = 739923 * usec_per_day + 43200000000
   \<and> 736273 * usec_per_day + 43200000000 = 739923 * usec_per_day + 43200000000 - 10 * 365 * usec_per_day
   \<and> 3650 * usec_per_day \<le> 739923 * usec_per_day + 43200000000
   \<and> 739923 * usec_per_day + 43200000000 \<le> datetime_max
   \<and> (\<exists>start_dt. date_range (739923 * usec_per_day + 43200000000) 10
                     = Inr (start_dt, 739923 * usec_per_day + 43200000000)
          \<and> 739923 * usec_per_day + 43200000000 - start_dt = 3650 * usec_per_day
          \<and> \<bar>(739923 * usec_per_day + 43200000000 - start_dt) - 3650 * usec_per_day\<bar> \<le> usec_per_day
          \<and> start_dt < 739923 * usec_per_day + 43200000000)
   \<and> (\<exists>st w'. run_full_download env_demo demo_downloader 10 world0 = (Inr st, w')
          \<and> date_range (datetime_now env_demo (tick world0)) 10 = Inr (start_date st, end_date st))"
proof -
  let ?now = "739923 * usec_per_day + 43200000000"
  let ?start = "736273 * usec_per_day + 43200000000"
  have h1: "date_range ?now 10 = Inr (?start, ?now)"
    using date_range_demo by (simp add: env_demo_def)
  have h2: "3650 * usec_per_day \<le> ?now \<and> ?now \<le> datetime_max"
    by (simp add: usec_per_day_def datetime_max_def)
  obtain st w' where h3: "run_full_download env_demo demo_downloader 10 world0 = (Inr st, w')"
    using run_full_download_returns[OF no_interrupt_demo date_range_demo] by blast
  note c = date_range_is_years_times_365[of ?now 10 ?start ?now env_demo demo_downloader world0 st w']
  show ?thesis using c h1 h2 h3 by blast
qed

text \<open>
  Claim C9. Whenever \<open>run_full_download\<close> is not interrupted and the date range
  exists, it returns stats whose \<open>indices_downloaded\<close> is 3, whatever the three index
  fetches gave. In the sample environment all three time out and nothing is written.
\<close>

theorem indices_downloaded_always_three:
  assumes "no_interrupt env" and "date_range (datetime_now env (tick w)) years = Inr dr"
  shows "\<exists>st w'. run_full_download env self years w = (Inr st, w') \<and> indices_downloaded st = 3"
  using run_full_download_returns[OF assms, of self] run_full_download_stats by blast

theorem indices_downloaded_always_three_witness:
  "no_interrupt env_demo
   \<and> date_range (datetime_now env_demo (tick world0)) 10
       = Inr (736273 * usec_per_day + 43200000000, 739923 * usec_per_day + 43200000000)
   \<and> downloads (trace (snd (download_market_indices env_demo demo_downloader 0 1 world0)))
       = [''^NSEI'', ''^BSESN'', ''^NSEBANK'']
   \<and> files (snd (download_market_indices env_demo demo_downloader 0 1 world0)) = Map.empty
   \<and> (\<exists>st w'. run_full_download env_demo demo_downloader 10 world0 = (Inr st, w') \<and> indices_downloaded st = 3)"
proof -
  have i: "downloads (trace (snd (download_market_indices env_demo demo_downloader 0 1 world0)))
       = [''^NSEI'', ''^BSESN'', ''^NSEBANK'']"
     "files (snd (download_market_indices env_demo demo_downloader 0 1 world0)) = Map.empty"
    unfolding download_market_indices_def indices_config_def indices_loop.simps index_step_cases
    by (simp_all add: bind_def env_demo_def world_defs world0_def Let_def)
  show ?thesis
    using indices_downloaded_always_three[OF no_interrupt_demo date_range_demo, of demo_downloader] no_interrupt_demo date_range_demo i
    by blast
qed

text \<open>
  Claim C4. When the read of the NSE list raises an \<open>Exception\<close> (network, parse) or
  gives a table without a Symbol column (schema), \<open>get_nifty50_stocks\<close> returns the
  fallback list as it stands, raising nothing, and that list is not empty.
\<close>

theorem nifty50_falls_back_on_failure:
  assumes "(\<exists>m. read_csv env (tick w) nse_url = Inl (Exception m))
         \<or> (\<exists>df. read_csv env (tick w) nse_url = Inr df \<and> map_of df ''Symbol'' = None)"
  shows "fst (get_nifty50_stocks env w) = Inr get_fallback_nifty50 \<and> get_fallback_nifty50 \<noteq> []"
proof -
  have "get_fallback_nifty50 \<noteq> []" by (simp add: get_fallback_nifty50_def)
  moreover have "fst (get_nifty50_stocks env w) = Inr get_fallback_nifty50"
    using assms
    by (auto simp: get_nifty50_stocks_def get_nifty50_stocks_try_def catch_def bind_def call_read_csv_def
        key_error_Symbol_def)
  ultimately show ?thesis by simp
qed

theorem nifty50_falls_back_on_failure_witness:
  "(\<exists>m. read_csv env_demo (tick world0) nse_url = Inl (Exception m))
   \<and> fst (get_nifty50_stocks env_demo world0) = Inr get_fallback_nifty50
   \<and> (\<exists>df. read_csv env_schema (tick world0) nse_url = Inr df \<and> map_of df ''Symbol'' = None)
   \<and> fst (get_nifty50_stocks env_schema world0) = Inr get_fallback_nifty50
   \<and> get_fallback_nifty50 \<noteq> []"
proof -
  have h1: "\<exists>m. read_csv env_demo (tick world0) nse_url = Inl (Exception m)"
    by (simp add: env_demo_def)
  have h2: "\<exists>df. read_csv env_schema (tick world0) nse_url = Inr df \<and> map_of df ''Symbol'' = None"
    by (simp add: env_schema_def env_demo_def)
  show ?thesis
    using nifty50_falls_back_on_failure[of env_demo world0] nifty50_falls_back_on_failure[of env_schema world0] h1 h2 by blast
qed

text \<open>
  Claim C8 says the process ends with a non-zero status after a failure outside the
  try-scopes. It does not: when the data directory cannot be created, \<open>main\<close> raises,
  the guard catches the exception, and the script runs to its end with status 0.
\<close>

theorem top_level_error_exits_zero:
  "\<not> (fst (main env_denied world0) = Inl (Exception ''[Errno 13] Permission denied'')
       \<longrightarrow> exit_status (fst (script env_denied world0)) \<noteq> 0)"
  by (simp add: script_def exit_status_def main_def init_def setup_directories_def bind_def call_makedirs_def
      env_denied_def env_demo_def world0_def Let_def)

text \<open>
  Claim C8, amended. When \<open>main\<close> raises an \<open>Exception\<close>, the guard logs one ERROR
  record, \<open>Critical error during execution:\<close> with the text of the exception and the
  traceback (\<open>exc_info=True\<close>), returns, and the exit status is 0.
\<close>

theorem top_level_error_logged_then_exit_zero:
  assumes "main env w = (Inl (Exception e), w1)"
  shows "script env w = (Inr (), logger_error (''Critical error during execution: '' @ e) True w1)
     \<and> exit_status (fst (script env w)) = 0"
  using assms by (simp add: script_def exit_status_def)

theorem top_level_error_logged_then_exit_zero_witness:
  "main env_denied world0
     = (Inl (Exception ''[Errno 13] Permission denied''),
        \<lparr>tick = 1, files = Map.empty, trace = [MakeDirs ''data'']\<rparr>)
   \<and> script env_denied world0
     = (Inr (), \<lparr>tick = 1, files = Map.empty,
                 trace = [MakeDirs ''data'',
                          Log ERROR ''Critical error during execution: [Errno 13] Permission denied'' True]\<rparr>)
   \<and> exit_status (fst (script env_denied world0)) = 0"
proof -
  have h: "main env_denied world0
     = (Inl (Exception ''[Errno 13] Permission denied''),
        \<lparr>tick = 1, files = Map.empty, trace = [MakeDirs ''data'']\<rparr>)"
    by (simp add: main_def init_def setup_directories_def bind_def call_makedirs_def
      env_denied_def env_demo_def world0_def Let_def world_defs)
  show ?thesis
    using top_level_error_logged_then_exit_zero[OF h] h by (simp add: world_defs exit_status_def)
qed

end
